theory Spec2Isabelle
  imports Main
begin

section \<open>JavaScript values, strings and errors\<close>

text \<open>
  The federation code of \<^verbatim>\<open>routes.js\<close> and of the frontend router works on header
  strings, on values produced by \<^verbatim>\<open>JSON.parse\<close> and on a handful of library calls.
  Header strings reach Node as Latin-1 text, one character per byte, so \<^typ>\<open>string\<close>
  models them exactly. \<^verbatim>\<open>undefined\<close> is \<^term>\<open>None\<close> of an option type.
  A JSON number is kept as an integer: the code below asks whether it is zero and,
  where \<^verbatim>\<open>res.send\<close> receives one, which status code it names.
\<close>

datatype js_error = SyntaxError | TypeError

datatype json =
    JNull
  | JBool bool
  | JNum int
  | JStr string
  | JArr "json list"
  | JObj "(string \<times> json) list"

text \<open>Truthiness of a value, as \<^verbatim>\<open>if (v)\<close>, \<^verbatim>\<open>!v\<close> and \<^verbatim>\<open>v || w\<close> test it.\<close>

fun js_truthy :: "json option \<Rightarrow> bool" where
  "js_truthy None = False"
| "js_truthy (Some JNull) = False"
| "js_truthy (Some (JBool b)) = b"
| "js_truthy (Some (JNum n)) = (n \<noteq> 0)"
| "js_truthy (Some (JStr s)) = (s \<noteq> [])"
| "js_truthy (Some (JArr xs)) = True"
| "js_truthy (Some (JObj kvs)) = True"

definition js_or :: "json option \<Rightarrow> json option \<Rightarrow> json option" where
  "js_or a b = (if js_truthy a then a else b)"

text \<open>
  Reading a property of a parsed JSON value: \<^verbatim>\<open>null.k\<close> throws a TypeError, an object
  yields its member (or \<^verbatim>\<open>undefined\<close>), and the names read below are not properties
  of numbers, strings, booleans or arrays. The parser is taken to list every key of an
  object once.
\<close>

fun js_prop :: "json \<Rightarrow> string \<Rightarrow> js_error + json option" where
  "js_prop JNull k = Inl TypeError"
| "js_prop (JObj kvs) k = Inr (map_of kvs k)"
| "js_prop (JBool b) k = Inr None"
| "js_prop (JNum n) k = Inr None"
| "js_prop (JStr s) k = Inr None"
| "js_prop (JArr xs) k = Inr None"

text \<open>\<^verbatim>\<open>String.prototype.split\<close> with a one-character separator: never an empty list.\<close>

fun split_on :: "char \<Rightarrow> string \<Rightarrow> string list" where
  "split_on c [] = [[]]"
| "split_on c (x # xs) =
     (if x = c then [] # split_on c xs
      else (case split_on c xs of
              p # ps \<Rightarrow> (x # p) # ps
            | [] \<Rightarrow> [[x]]))"

text \<open>\<^verbatim>\<open>Array.prototype.join\<close> on strings.\<close>

fun js_join :: "string \<Rightarrow> string list \<Rightarrow> string" where
  "js_join sep [] = []"
| "js_join sep [x] = x"
| "js_join sep (x # y # ys) = x @ sep @ js_join sep (y # ys)"

text \<open>
  \<^verbatim>\<open>String.prototype.toLowerCase\<close> on Latin-1 text: the letters A to Z, and the
  accented capitals 0xC0 to 0xDE without the multiplication sign 0xD7, move up by 32,
  which sets bit 5.
\<close>

definition is_upper :: "char \<Rightarrow> bool" where
  "is_upper c = (let n = (of_char c :: nat) in
     (65 \<le> n \<and> n \<le> 90) \<or> (192 \<le> n \<and> n \<le> 222 \<and> n \<noteq> 215))"

definition to_lower :: "char \<Rightarrow> char" where
  "to_lower c = (if is_upper c
     then (case c of Char b0 b1 b2 b3 b4 b5 b6 b7 \<Rightarrow> Char b0 b1 b2 b3 b4 True b6 b7)
     else c)"

definition toLowerCase :: "string \<Rightarrow> string" where
  "toLowerCase s = map to_lower s"

text \<open>A template literal renders \<^verbatim>\<open>undefined\<close> as the word itself.\<close>

fun js_to_string :: "string option \<Rightarrow> string" where
  "js_to_string None = ''undefined''"
| "js_to_string (Some s) = s"

section \<open>Requests\<close>

text \<open>
  \<^verbatim>\<open>req.headers\<close> is keyed by lower-case header names, and every request header
  the handlers read is a string there. \<^verbatim>\<open>req.get\<close> is Express's accessor: it throws a
  TypeError on an empty name, lower-cases the name, and treats \<^verbatim>\<open>referer\<close> and
  \<^verbatim>\<open>referrer\<close> as one header.
\<close>

record request =
  req_method :: string
  req_path :: string
  req_headers :: "string \<Rightarrow> string option"

definition req_get :: "request \<Rightarrow> string \<Rightarrow> js_error + string option" where
  "req_get req name =
     (if name = [] then Inl TypeError
      else let lc = toLowerCase name in
        if lc = ''referer'' \<or> lc = ''referrer''
        then Inr (case req_headers req ''referrer'' of
                    None \<Rightarrow> req_headers req ''referer''
                  | Some v \<Rightarrow> if v = [] then req_headers req ''referer'' else Some v)
        else Inr (req_headers req lc))"

text \<open>
  The route \<^verbatim>\<open>router.post("/activitypub/inbox", ...)\<close> on \<^verbatim>\<open>express.Router()\<close> with
  its default options: the path is matched without regard to the case of letters and
  with or without a trailing slash. \<^verbatim>\<open>inbox_canonical\<close> holds of the requests whose
  path is the pattern as it is written.
\<close>

definition inbox_route :: "request \<Rightarrow> bool" where
  "inbox_route req =
     (req_method req = ''POST''
      \<and> (toLowerCase (req_path req) = ''/activitypub/inbox''
         \<or> toLowerCase (req_path req) = ''/activitypub/inbox/''))"

definition inbox_canonical :: "request \<Rightarrow> bool" where
  "inbox_canonical req = (req_method req = ''POST'' \<and> req_path req = ''/activitypub/inbox'')"

section \<open>The inbox handler of routes.js\<close>

text \<open>\<^verbatim>\<open>const isFederated = config.general.is_federated || true;\<close>\<close>

definition isFederated :: "json option \<Rightarrow> json option" where
  "isFederated is_federated = js_or is_federated (Some (JBool True))"

text \<open>
  \<^verbatim>\<open>value.replace(/^"/g, "").replace(/"$/g, "")\<close>: one leading double quote goes, then
  one trailing double quote of what is left.
\<close>

definition strip_leading_quote :: "string \<Rightarrow> string" where
  "strip_leading_quote s = (case s of [] \<Rightarrow> [] | c # r \<Rightarrow> if c = CHR 0x22 then r else s)"

definition strip_trailing_quote :: "string \<Rightarrow> string" where
  "strip_trailing_quote s = (if s \<noteq> [] \<and> last s = CHR 0x22 then butlast s else s)"

definition strip_quotes :: "string \<Rightarrow> string" where
  "strip_quotes value = strip_trailing_quote (strip_leading_quote value)"

text \<open>
  The reducer \<^verbatim>\<open>acc[el[0]] = el[1]\<close> on an object that starts as \<^verbatim>\<open>{}\<close>. The object
  is modelled by its own properties; a property set to \<^verbatim>\<open>undefined\<close> reads like a
  missing one. The handler reads \<^verbatim>\<open>keyId\<close>, \<^verbatim>\<open>headers\<close> and \<^verbatim>\<open>signature\<close>, none
  of which is inherited from \<^verbatim>\<open>Object.prototype\<close>, so each read gives the own
  property or \<^verbatim>\<open>undefined\<close>. Assigning a string or \<^verbatim>\<open>undefined\<close> to
  \<^verbatim>\<open>__proto__\<close> changes nothing.
\<close>

definition sig_assign :: "(string \<Rightarrow> string option) \<Rightarrow> string list \<Rightarrow> (string \<Rightarrow> string option)" where
  "sig_assign acc el =
     (case el of
        [] \<Rightarrow> acc(''undefined'' := None)
      | [k] \<Rightarrow> if k = ''__proto__'' then acc else acc(k := None)
      | k # v # rest \<Rightarrow> if k = ''__proto__'' then acc else acc(k := Some v))"

definition parse_signature_header :: "string \<Rightarrow> (string \<Rightarrow> string option)" where
  "parse_signature_header signature =
     foldl sig_assign (\<lambda>k. None)
       (map (\<lambda>pair. map strip_quotes (split_on CHR ''='' pair)) (split_on CHR '','' signature))"

text \<open>
  The collaborators of the handler. \<^verbatim>\<open>http_get\<close> is the \<^verbatim>\<open>request\<close> call: it takes
  the \<^verbatim>\<open>url\<close> option and gives the \<^verbatim>\<open>actor\<close> argument of the callback, the
  response body, or \<^verbatim>\<open>undefined\<close> when the request failed; the callback runs once.
  \<^verbatim>\<open>json_parse\<close> is \<^verbatim>\<open>JSON.parse\<close>, \<^term>\<open>None\<close> when it throws.
  \<^verbatim>\<open>buffer_from_object\<close> is \<^verbatim>\<open>Buffer.from\<close> on an array or object, \<^term>\<open>None\<close> when
  it throws. \<^verbatim>\<open>base64_decode\<close> is \<^verbatim>\<open>Buffer.from(s, "base64")\<close>.
  \<^verbatim>\<open>rsa_sha256_verify message key signature\<close> is the \<^verbatim>\<open>RSA-SHA256\<close> verifier,
  \<^term>\<open>None\<close> when \<^verbatim>\<open>verify\<close> throws. \<^verbatim>\<open>process_inbox\<close> is \<^verbatim>\<open>processInbox\<close> of
  \<^verbatim>\<open>activitypub.js\<close>, which owns every change of follower lists: it returns the new
  store and whether it returned normally.
\<close>

record 'st env =
  http_get :: "string option \<Rightarrow> string option"
  json_parse :: "string \<Rightarrow> json option"
  buffer_from_object :: "json \<Rightarrow> string option"
  base64_decode :: "string \<Rightarrow> string"
  rsa_sha256_verify :: "string \<Rightarrow> string \<Rightarrow> string \<Rightarrow> bool option"
  process_inbox :: "request \<Rightarrow> 'st \<Rightarrow> bool \<times> 'st"

text \<open>
  What one call of the handler ends in: a response with a status and the fixed part of
  its text, the call of \<^verbatim>\<open>processInbox\<close> (which answers by itself), that call
  throwing inside the \<^verbatim>\<open>try\<close> block (answered with 401), or an exception that
  nothing catches, in which case the handler sends no response.
\<close>

datatype outcome =
    Respond nat string
  | ProcessInbox
  | ProcessInboxThrew
  | Uncaught js_error

fun invokes_processing :: "outcome \<Rightarrow> bool" where
  "invokes_processing ProcessInbox = True"
| "invokes_processing ProcessInboxThrew = True"
| "invokes_processing (Respond status body) = False"
| "invokes_processing (Uncaught err) = False"

fun is_response :: "outcome \<Rightarrow> bool" where
  "is_response (Respond status body) = True"
| "is_response ProcessInbox = True"
| "is_response ProcessInboxThrew = True"
| "is_response (Uncaught err) = False"

text \<open>
  The first \<^verbatim>\<open>try\<close> block: \<^verbatim>\<open>publicKey\<close> starts as the empty string and becomes
  \<^verbatim>\<open>JSON.parse(actor).publicKey.publicKeyPem\<close> when \<^verbatim>\<open>publicKey\<close> is truthy.
  \<^verbatim>\<open>JSON.parse(undefined)\<close> throws.
\<close>

definition actor_public_key :: "'st env \<Rightarrow> string option \<Rightarrow> js_error + json option" where
  "actor_public_key env actor =
     (case actor of
        None \<Rightarrow> Inl SyntaxError
      | Some body \<Rightarrow>
          (case json_parse env body of
             None \<Rightarrow> Inl SyntaxError
           | Some doc \<Rightarrow>
               (case js_prop doc ''publicKey'' of
                  Inl err \<Rightarrow> Inl err
                | Inr pk \<Rightarrow>
                    if js_truthy pk
                    then (case pk of None \<Rightarrow> Inr None | Some pkv \<Rightarrow> js_prop pkv ''publicKeyPem'')
                    else Inr (Some (JStr [])))))"

text \<open>One line of the comparison string, and the whole of it.\<close>

definition comparison_line :: "request \<Rightarrow> string \<Rightarrow> js_error + string" where
  "comparison_line req header =
     (if header = ''(request-target)''
      then Inr ''(request-target): post /activitypub/inbox''
      else (case req_get req header of
              Inl err \<Rightarrow> Inl err
            | Inr v \<Rightarrow> Inr (header @ '': '' @ js_to_string v)))"

fun map_throwing :: "('a \<Rightarrow> js_error + 'b) \<Rightarrow> 'a list \<Rightarrow> js_error + 'b list" where
  "map_throwing f [] = Inr []"
| "map_throwing f (x # xs) =
     (case f x of
        Inl err \<Rightarrow> Inl err
      | Inr y \<Rightarrow> (case map_throwing f xs of Inl err \<Rightarrow> Inl err | Inr ys \<Rightarrow> Inr (y # ys)))"

definition comparison_string :: "request \<Rightarrow> string option \<Rightarrow> js_error + string" where
  "comparison_string req headers =
     (case headers of
        None \<Rightarrow> Inl TypeError
      | Some h \<Rightarrow>
          (case map_throwing (comparison_line req) (split_on CHR '' '' h) of
             Inl err \<Rightarrow> Inl err
           | Inr ls \<Rightarrow> Inr (js_join [CHR 0x0A] ls)))"

text \<open>\<^verbatim>\<open>Buffer.from(publicKey, "ascii")\<close>: a string gives its bytes.\<close>

fun buffer_from :: "'st env \<Rightarrow> json option \<Rightarrow> js_error + string" where
  "buffer_from env None = Inl TypeError"
| "buffer_from env (Some (JStr s)) = Inr s"
| "buffer_from env (Some JNull) = Inl TypeError"
| "buffer_from env (Some (JBool b)) = Inl TypeError"
| "buffer_from env (Some (JNum n)) = Inl TypeError"
| "buffer_from env (Some (JArr xs)) =
     (case buffer_from_object env (JArr xs) of None \<Rightarrow> Inl TypeError | Some b \<Rightarrow> Inr b)"
| "buffer_from env (Some (JObj kvs)) =
     (case buffer_from_object env (JObj kvs) of None \<Rightarrow> Inl TypeError | Some b \<Rightarrow> Inr b)"

text \<open>
  The callback of \<^verbatim>\<open>request\<close>. Only \<^verbatim>\<open>JSON.parse\<close> with the property reads, and
  \<^verbatim>\<open>verifier.verify\<close> with \<^verbatim>\<open>processInbox\<close>, stand inside \<^verbatim>\<open>try\<close> blocks.
\<close>

definition inbox_callback ::
  "'st env \<Rightarrow> request \<Rightarrow> (string \<Rightarrow> string option) \<Rightarrow> string option \<Rightarrow> 'st \<Rightarrow> outcome \<times> 'st" where
  "inbox_callback env req signature_header actor st =
     (case actor_public_key env actor of
        Inl err \<Rightarrow> (Respond 500 ''Actor could not be parsed'', st)
      | Inr publicKey \<Rightarrow>
          (case comparison_string req (signature_header ''headers'') of
             Inl err \<Rightarrow> (Uncaught err, st)
           | Inr cs \<Rightarrow>
               (case buffer_from env publicKey of
                  Inl err \<Rightarrow> (Uncaught err, st)
                | Inr publicKeyBuf \<Rightarrow>
                    (case signature_header ''signature'' of
                       None \<Rightarrow> (Uncaught TypeError, st)
                     | Some sig \<Rightarrow>
                         (case rsa_sha256_verify env cs publicKeyBuf (base64_decode env sig) of
                            None \<Rightarrow> (Respond 401 ''Signature could not be verified: '', st)
                          | Some False \<Rightarrow> (Respond 401 ''Signature could not be verified.'', st)
                          | Some True \<Rightarrow>
                              (case process_inbox env req st of
                                 (True, st') \<Rightarrow> (ProcessInbox, st')
                               | (False, st') \<Rightarrow> (ProcessInboxThrew, st')))))))"

text \<open>\<^verbatim>\<open>router.post("/activitypub/inbox", (req, res) => ...)\<close>\<close>

definition inbox_handler :: "'st env \<Rightarrow> json option \<Rightarrow> request \<Rightarrow> 'st \<Rightarrow> outcome \<times> 'st" where
  "inbox_handler env is_federated req st =
     (if \<not> js_truthy (isFederated is_federated) then (Respond 404 ''Not Found'', st)
      else (case req_get req ''signature'' of
              Inl err \<Rightarrow> (Uncaught err, st)
            | Inr None \<Rightarrow> (Respond 401 ''No signature provided.'', st)
            | Inr (Some signature) \<Rightarrow>
                if signature = [] then (Respond 401 ''No signature provided.'', st)
                else (let signature_header = parse_signature_header signature
                      in inbox_callback env req signature_header
                           (http_get env (signature_header ''keyId'')) st)))"

text \<open>
  A Signature header in the form the interface asks for: \<^verbatim>\<open>key="value"\<close> pairs joined
  by commas. It is the input shape the parser is measured against.
\<close>

definition quoted_pair :: "string \<times> string \<Rightarrow> string" where
  "quoted_pair kv = fst kv @ CHR ''='' # CHR 0x22 # snd kv @ [CHR 0x22]"

definition signature_of :: "(string \<times> string) list \<Rightarrow> string" where
  "signature_of kvs = js_join '','' (map quoted_pair kvs)"

text \<open>
  The signing string as the design words it, next to \<^const>\<open>comparison_string\<close>: the
  pseudo-header line is made from the method and the path of the request, any other line
  from the value the request has for that name; with a listed header that the request
  does not carry there is no such string.
\<close>

definition spec_signing_line :: "request \<Rightarrow> string \<Rightarrow> string option" where
  "spec_signing_line req name =
     (if name = ''(request-target)''
      then Some (''(request-target): '' @ toLowerCase (req_method req) @ '' '' @ req_path req)
      else (case req_get req name of
              Inr (Some v) \<Rightarrow> Some (name @ '': '' @ v)
            | Inr None \<Rightarrow> None
            | Inl err \<Rightarrow> None))"

text \<open>Lines joined with a newline: every line but the first is preceded by one.\<close>

definition spec_join :: "string list \<Rightarrow> string" where
  "spec_join ls =
     (case ls of [] \<Rightarrow> [] | l # rest \<Rightarrow> l @ concat (map (\<lambda>x. CHR 0x0A # x) rest))"

definition spec_signing_string :: "request \<Rightarrow> string \<Rightarrow> string option" where
  "spec_signing_string req headers =
     map_option spec_join
       (those (map (spec_signing_line req) (split_on CHR '' '' headers)))"

text \<open>
  An actor document with a public key: an object whose \<^verbatim>\<open>publicKey\<close> member is an
  object with a string \<^verbatim>\<open>publicKeyPem\<close>.
\<close>

definition actor_key :: "json \<Rightarrow> string option" where
  "actor_key doc =
     (case doc of
        JObj kvs \<Rightarrow>
          (case map_of kvs ''publicKey'' of
             Some (JObj pk) \<Rightarrow>
               (case map_of pk ''publicKeyPem'' of Some (JStr pem) \<Rightarrow> Some pem | _ \<Rightarrow> None)
           | _ \<Rightarrow> None)
      | _ \<Rightarrow> None)"

text \<open>
  The two conditions under which no statement outside the \<^verbatim>\<open>try\<close> blocks throws:
  the parsed header binds \<^verbatim>\<open>headers\<close> to a list of non-empty names and binds
  \<^verbatim>\<open>signature\<close>; and the key taken from the actor, if one was taken, is something
  \<^verbatim>\<open>Buffer.from\<close> accepts.
\<close>

definition fields_present :: "(string \<Rightarrow> string option) \<Rightarrow> bool" where
  "fields_present signature_header =
     ((case signature_header ''headers'' of
         None \<Rightarrow> False
       | Some h \<Rightarrow> [] \<notin> set (split_on CHR '' '' h))
      \<and> signature_header ''signature'' \<noteq> None)"

definition key_usable :: "'st env \<Rightarrow> string option \<Rightarrow> bool" where
  "key_usable env actor =
     (case actor_public_key env actor of
        Inl err \<Rightarrow> True
      | Inr publicKey \<Rightarrow> (case buffer_from env publicKey of Inl err \<Rightarrow> False | Inr b \<Rightarrow> True))"

section \<open>Deleting events: the cleanup job and the delete route\<close>

text \<open>
  The fields of an event that the two deletions read. \<^verbatim>\<open>ev_id\<close> is \<^verbatim>\<open>event.id\<close>,
  \<^verbatim>\<open>ev_oid\<close> is \<^verbatim>\<open>event._id\<close>; the follower list is handed on untouched.
\<close>

record 'f event =
  ev_id :: string
  ev_oid :: string
  ev_editToken :: string
  ev_image :: "string option"
  ev_activityPubActor :: "string option"
  ev_activityPubEvent :: "string option"
  ev_followers :: 'f

text \<open>
  What a deletion does, in the order it does it. \<^verbatim>\<open>broadcastDeleteMessage\<close> lives in
  \<^verbatim>\<open>activitypub.js\<close>; here it is the parameter \<^verbatim>\<open>bc\<close>, which gives the statuses the
  completion callback is called with, or \<^term>\<open>None\<close> when the callback never fires.
\<close>

datatype ('f, 's) effect =
    UnlinkImage string
  | BroadcastDelete json 'f string
  | BroadcastCallback 's
  | RemoveEvent string
  | Send string
  | Redirect string
  | Thrown js_error

text \<open>One event of the scheduled job (the body of \<^verbatim>\<open>oldEvents.forEach\<close>).\<close>

definition delete_old_event ::
  "(string \<Rightarrow> json option) \<Rightarrow> (json \<Rightarrow> 'f \<Rightarrow> string \<Rightarrow> 's option) \<Rightarrow> 'f event \<Rightarrow> ('f, 's) effect list" where
  "delete_old_event jp bc event =
     (case ev_image event of
        None \<Rightarrow> []
      | Some img \<Rightarrow> if img = [] then [] else [UnlinkImage img]) @
     (case (ev_activityPubActor event, ev_activityPubEvent event) of
        (Some actor, Some ev) \<Rightarrow>
          if actor \<noteq> [] \<and> ev \<noteq> [] then
            (case jp actor of
               None \<Rightarrow> [Thrown SyntaxError]
             | Some jsonUpdateObject \<Rightarrow>
                 (case jp ev of
                    None \<Rightarrow> [Thrown SyntaxError]
                  | Some jsonEventObject \<Rightarrow>
                      BroadcastDelete jsonUpdateObject (ev_followers event) (ev_id event) #
                      (case bc jsonUpdateObject (ev_followers event) (ev_id event) of
                         None \<Rightarrow> []
                       | Some statuses \<Rightarrow>
                           BroadcastCallback statuses #
                           BroadcastDelete jsonEventObject (ev_followers event) (ev_id event) #
                           (case bc jsonEventObject (ev_followers event) (ev_id event) of
                              None \<Rightarrow> []
                            | Some statuses' \<Rightarrow>
                                [BroadcastCallback statuses', RemoveEvent (ev_oid event)]))))
          else [RemoveEvent (ev_oid event)]
      | (Some actor, None) \<Rightarrow> [RemoveEvent (ev_oid event)]
      | (None, ev) \<Rightarrow> [RemoveEvent (ev_oid event)])"

text \<open>
  \<^verbatim>\<open>router.post("/deleteevent/:eventID/:editToken")\<close>. \<^verbatim>\<open>found\<close> is what
  \<^verbatim>\<open>Event.findOne\<close> gave, \<^verbatim>\<open>db_ok\<close> whether \<^verbatim>\<open>Event.deleteOne\<close> succeeded. An
  exception in the \<^verbatim>\<open>then\<close> handler ends in the \<^verbatim>\<open>catch\<close> that sends the apology.
  The mails sent after the redirect are left out.
\<close>

definition delete_event_route ::
  "(string \<Rightarrow> json option) \<Rightarrow> (json \<Rightarrow> 'f \<Rightarrow> string \<Rightarrow> 's option) \<Rightarrow> bool \<Rightarrow>
   'f event option \<Rightarrow> string \<Rightarrow> string \<Rightarrow> ('f, 's) effect list" where
  "delete_event_route jp bc db_ok found eventID submittedEditToken =
     (case found of
        None \<Rightarrow> [Send ''Sorry! Something went wrong: '']
      | Some event \<Rightarrow>
          if ev_editToken event = submittedEditToken then
            (case (case ev_activityPubActor event of None \<Rightarrow> None | Some actor \<Rightarrow> jp actor) of
               None \<Rightarrow> [Send ''Sorry! Something went wrong: '']
             | Some jsonUpdateObject \<Rightarrow>
                 BroadcastDelete jsonUpdateObject (ev_followers event) eventID #
                 (case bc jsonUpdateObject (ev_followers event) eventID of
                    None \<Rightarrow> []
                  | Some statuses \<Rightarrow>
                      BroadcastCallback statuses # RemoveEvent eventID #
                      (if db_ok then
                         (case ev_image event of
                            None \<Rightarrow> []
                          | Some img \<Rightarrow> if img = [] then [] else [UnlinkImage img]) @
                         [Redirect ''/'']
                       else [Send ''Sorry! Something went wrong (error deleting): ''])))
          else [Send ''Sorry! Something went wrong''])"

text \<open>
  The order the claim is about, as a check that runs along a trace: the record may be
  removed only once the broadcast of the given snapshot has been issued and, after that,
  a completion callback has fired.
\<close>

datatype phase = Pending | Issued | Completed

fun removal_waits :: "phase \<Rightarrow> json \<Rightarrow> ('f, 's) effect list \<Rightarrow> bool" where
  "removal_waits ph snapshot [] = True"
| "removal_waits ph snapshot (RemoveEvent i # t) = (ph = Completed \<and> removal_waits ph snapshot t)"
| "removal_waits ph snapshot (BroadcastDelete obj fs i # t) =
     removal_waits (if ph = Pending \<and> obj = snapshot then Issued else ph) snapshot t"
| "removal_waits ph snapshot (BroadcastCallback statuses # t) =
     removal_waits (if ph = Issued then Completed else ph) snapshot t"
| "removal_waits ph snapshot (UnlinkImage f # t) = removal_waits ph snapshot t"
| "removal_waits ph snapshot (Send body # t) = removal_waits ph snapshot t"
| "removal_waits ph snapshot (Redirect l # t) = removal_waits ph snapshot t"
| "removal_waits ph snapshot (Thrown err # t) = removal_waits ph snapshot t"

section \<open>The event page of the frontend router\<close>

text \<open>
  \<^verbatim>\<open>router.get("/:eventID")\<close>. \<^verbatim>\<open>acceptsActivityPub\<close> and \<^verbatim>\<open>activityPubContentType\<close>
  come from \<^verbatim>\<open>lib/activitypub.js\<close> and are parameters. \<^verbatim>\<open>view_data\<close> stands for the
  statements that prepare the template data, \<^term>\<open>None\<close> when one of them throws; every
  exception inside the handler ends in the \<^verbatim>\<open>catch\<close> that renders the 404 page.

  A response carries the content type that \<^verbatim>\<open>res.header\<close> was given (Express adds a
  charset parameter to it). \<^verbatim>\<open>res.send\<close> of Express 4 looks at the type of its
  argument: an object, an array or a boolean goes through \<^verbatim>\<open>res.json\<close> and is sent as
  JSON text; a string is sent as it is; \<^verbatim>\<open>null\<close> gives an empty body; a number is taken
  as the status code, the body being the status text, and a code that is not between 100
  and 999 after the conversion to a 32-bit integer makes Node throw when the head is
  written, inside the \<^verbatim>\<open>try\<close> block.
\<close>

datatype 'v page_result =
    SendJson string json
  | SendText string string
  | SendEmpty string
  | SendStatus string nat
  | RenderEvent 'v
  | Render404

definition to_int32 :: "int \<Rightarrow> int" where
  "to_int32 n = (n + 2147483648) mod 4294967296 - 2147483648"

fun res_send :: "string \<Rightarrow> json \<Rightarrow> 'v page_result" where
  "res_send content_type (JObj kvs) = SendJson content_type (JObj kvs)"
| "res_send content_type (JArr xs) = SendJson content_type (JArr xs)"
| "res_send content_type (JBool b) = SendJson content_type (JBool b)"
| "res_send content_type (JStr s) = SendText content_type s"
| "res_send content_type JNull = SendEmpty content_type"
| "res_send content_type (JNum n) =
     (if 100 \<le> to_int32 n \<and> to_int32 n \<le> 999
      then SendStatus content_type (nat (to_int32 n))
      else Render404)"

definition event_page ::
  "(request \<Rightarrow> bool) \<Rightarrow> string \<Rightarrow> (string \<Rightarrow> json option) \<Rightarrow> ('f event \<Rightarrow> request \<Rightarrow> 'v option) \<Rightarrow>
   request \<Rightarrow> 'f event option \<Rightarrow> 'v page_result" where
  "event_page acceptsActivityPub activityPubContentType jp view_data req found =
     (case found of
        None \<Rightarrow> Render404
      | Some event \<Rightarrow>
          (case view_data event req of
             None \<Rightarrow> Render404
           | Some v \<Rightarrow>
               if acceptsActivityPub req then
                 (case jp (case ev_activityPubActor event of
                             None \<Rightarrow> ''{}''
                           | Some actor \<Rightarrow> if actor = [] then ''{}'' else actor) of
                    None \<Rightarrow> Render404
                  | Some doc \<Rightarrow> res_send activityPubContentType doc)
               else RenderEvent v))"

text \<open>
  Modelled from the spec: \<^verbatim>\<open>acceptsActivityPub\<close> of \<^verbatim>\<open>lib/activitypub.js\<close>, which is
  not among the sources. The design (section 4.3) decides on the request's media-type
  preference list, most preferred first: true iff the list contains a federation content
  type at a rank at or above the HTML type, or if no HTML-acceptable type is present at
  all.
\<close>

definition federation_type :: "string \<Rightarrow> bool" where
  "federation_type t = (t = ''application/activity+json'' \<or> t = ''application/ld+json'')"

definition html_acceptable :: "string \<Rightarrow> bool" where
  "html_acceptable t = (t = ''text/html'' \<or> t = ''text/*'' \<or> t = ''*/*'')"

fun first_rank :: "('a \<Rightarrow> bool) \<Rightarrow> 'a list \<Rightarrow> nat option" where
  "first_rank P [] = None"
| "first_rank P (x # xs) = (if P x then Some 0 else map_option Suc (first_rank P xs))"

definition wantsFederatedRepresentation :: "string list \<Rightarrow> bool" where
  "wantsFederatedRepresentation prefs =
     (case first_rank html_acceptable prefs of
        None \<Rightarrow> True
      | Some h \<Rightarrow> (case first_rank federation_type prefs of None \<Rightarrow> False | Some a \<Rightarrow> a \<le> h))"

section \<open>Sample data\<close>

text \<open>A remote actor, a request signed by it, and an event with two followers.\<close>

definition sample_actor_body :: string where
  "sample_actor_body = ''{\"publicKey\":{\"publicKeyPem\":\"PEM\"}}''"

definition sample_actor_doc :: json where
  "sample_actor_doc = JObj [(''publicKey'', JObj [(''publicKeyPem'', JStr ''PEM'')])]"

definition sample_signed_text :: string where
  "sample_signed_text =
     ''(request-target): post /activitypub/inbox'' @ CHR 0x0A # ''host: gath.io''
       @ CHR 0x0A # ''date: Tue, 03 Nov 2026 10:00:00 GMT''"

definition sample_parse :: "string \<Rightarrow> json option" where
  "sample_parse s =
     (if s = sample_actor_body then Some sample_actor_doc
      else if s = ''{}'' then Some (JObj [])
      else if s = ''{\"type\":\"Event\"}'' then Some (JObj [(''type'', JStr ''Event'')])
      else if s = ''{\"error\":\"Gone\"}'' then Some (JObj [(''error'', JStr ''Gone'')])
      else None)"

definition sample_env :: "string list env" where
  "sample_env =
     \<lparr> http_get = (\<lambda>url. if url = Some ''https://remote.example/actor''
                           then Some sample_actor_body
                         else if url = Some ''https://remote.example/deleted''
                           then Some ''{\"error\":\"Gone\"}''
                         else None),
       json_parse = sample_parse,
       buffer_from_object = (\<lambda>v. None),
       base64_decode = (\<lambda>s. s),
       rsa_sha256_verify = (\<lambda>message key signature.
          if key = ''PEM'' then Some (message = sample_signed_text \<and> signature = ''c2lnbmVk'')
          else None),
       process_inbox = (\<lambda>req followers. (True, ''https://remote.example/actor'' # followers)) \<rparr>"

definition sample_request :: "string option \<Rightarrow> request" where
  "sample_request signature =
     \<lparr> req_method = ''POST'', req_path = ''/activitypub/inbox'',
       req_headers = (\<lambda>name.
          if name = ''signature'' then signature
          else if name = ''host'' then Some ''gath.io''
          else if name = ''date'' then Some ''Tue, 03 Nov 2026 10:00:00 GMT''
          else None) \<rparr>"

definition sample_pairs :: "string \<Rightarrow> (string \<times> string) list" where
  "sample_pairs signature =
     [(''keyId'', ''https://remote.example/actor''),
      (''headers'', ''(request-target) host date''),
      (''signature'', signature)]"

definition sample_event :: "string list event" where
  "sample_event =
     \<lparr> ev_id = ''E1'', ev_oid = ''oid1'', ev_editToken = ''tok'', ev_image = None,
       ev_activityPubActor = Some sample_actor_body,
       ev_activityPubEvent = Some ''{\"type\":\"Event\"}'',
       ev_followers = [''https://a.example/inbox'', ''https://b.example/inbox''] \<rparr>"

definition sample_broadcast :: "json \<Rightarrow> string list \<Rightarrow> string \<Rightarrow> bool list option" where
  "sample_broadcast obj followers i = Some (map (\<lambda>f. f \<noteq> ''https://a.example/inbox'') followers)"

definition sample_page_request :: "string \<Rightarrow> request" where
  "sample_page_request accept =
     \<lparr> req_method = ''GET'', req_path = ''/E1'',
       req_headers = (\<lambda>name. if name = ''accept'' then Some accept else None) \<rparr>"

definition sample_prefs :: "request \<Rightarrow> string list" where
  "sample_prefs req = (case req_headers req ''accept'' of None \<Rightarrow> [] | Some a \<Rightarrow> split_on CHR '','' a)"

definition sample_view :: "string list event \<Rightarrow> request \<Rightarrow> string option" where
  "sample_view event req = Some (ev_id event)"

section \<open>Properties of the inbox handler\<close>

lemma js_truthy_isFederated: "js_truthy (isFederated v)"
  by (simp add: isFederated_def js_or_def)

text \<open>
  Claim C9. The initialiser \<^verbatim>\<open>config.general.is_federated || true\<close> is truthy for every
  configuration value, and is the boolean \<^verbatim>\<open>true\<close> for every boolean or missing
  setting; so the handler never takes its early 404 return: whatever the setting, the
  request, the collaborators and the store, the outcome is not a 404 response.
\<close>

theorem isFederated_always_true:
  "js_truthy (isFederated v)
   \<and> (v = None \<or> (\<exists>b. v = Some (JBool b)) \<longrightarrow> isFederated v = Some (JBool True))
   \<and> fst (inbox_handler env v req st) \<noteq> Respond 404 body"
proof (intro conjI)
  show "js_truthy (isFederated v)" by (rule js_truthy_isFederated)
  show "v = None \<or> (\<exists>b. v = Some (JBool b)) \<longrightarrow> isFederated v = Some (JBool True)"
    by (auto simp: isFederated_def js_or_def)
  show "fst (inbox_handler env v req st) \<noteq> Respond 404 body"
    by (auto simp: inbox_handler_def inbox_callback_def js_truthy_isFederated Let_def
             split: sum.splits option.splits bool.splits prod.splits)
qed

theorem isFederated_always_true_witness:
  "(Some (JBool False) = None \<or> (\<exists>b. Some (JBool False) = Some (JBool b)))
   \<and> isFederated (Some (JBool False)) = Some (JBool True)
   \<and> fst (inbox_handler sample_env (Some (JBool False)) (sample_request None) [])
         \<noteq> Respond 404 ''Not Found''"
proof -
  have h: "Some (JBool False) = None \<or> (\<exists>b. Some (JBool False) = Some (JBool b))"
    by blast
  show ?thesis
    using h isFederated_always_true
      [of "Some (JBool False)" sample_env "sample_request None" "[]" "''Not Found''"]
    by simp
qed

subsection \<open>Parsing the Signature header\<close>

lemma split_on_absent: "c \<notin> set a \<Longrightarrow> split_on c a = [a]"
  by (induction a) auto

lemma split_on_append: "c \<notin> set a \<Longrightarrow> split_on c (a @ c # b) = a # split_on c b"
  by (induction a) auto

lemma split_on_join:
  "ps \<noteq> [] \<Longrightarrow> \<forall>p\<in>set ps. c \<notin> set p \<Longrightarrow> split_on c (js_join [c] ps) = ps"
proof (induction ps rule: induct_list012)
  case 1
  then show ?case by simp
next
  case (2 x)
  then show ?case by (simp add: split_on_absent)
next
  case (3 x y ys)
  then show ?case by (simp add: split_on_append)
qed

lemma strip_quotes_quoted: "strip_quotes (CHR 0x22 # v @ [CHR 0x22]) = v"
  by (simp add: strip_quotes_def strip_leading_quote_def strip_trailing_quote_def)

lemma strip_quotes_plain: "CHR 0x22 \<notin> set k \<Longrightarrow> strip_quotes k = k"
proof (cases k)
  case Nil
  then show ?thesis
    by (simp add: strip_quotes_def strip_leading_quote_def strip_trailing_quote_def)
next
  case (Cons c r)
  assume "CHR 0x22 \<notin> set k"
  moreover have "last k \<in> set k" using Cons by simp
  ultimately have "last k \<noteq> CHR 0x22" "c \<noteq> CHR 0x22" using Cons by auto
  then show ?thesis
    using Cons by (simp add: strip_quotes_def strip_leading_quote_def strip_trailing_quote_def)
qed

lemma split_pair:
  assumes "CHR ''='' \<notin> set k" and "CHR ''='' \<notin> set v" and "CHR 0x22 \<notin> set k"
  shows "map strip_quotes (split_on CHR ''='' (quoted_pair (k, v))) = [k, v]"
proof -
  have "split_on CHR ''='' (k @ CHR ''='' # (CHR 0x22 # v @ [CHR 0x22]))
          = k # split_on CHR ''='' (CHR 0x22 # v @ [CHR 0x22])"
    using assms(1) by (rule split_on_append)
  moreover have "split_on CHR ''='' (CHR 0x22 # v @ [CHR 0x22]) = [CHR 0x22 # v @ [CHR 0x22]]"
    using assms(2) by (intro split_on_absent) simp
  ultimately show ?thesis
    using assms(3) by (simp add: quoted_pair_def strip_quotes_quoted strip_quotes_plain)
qed

lemma foldl_sig_assign:
  "\<forall>kv\<in>set kvs. fst kv \<noteq> ''__proto__'' \<Longrightarrow>
   foldl sig_assign acc (map (\<lambda>kv. [fst kv, snd kv]) kvs) k =
     (case map_of (rev kvs) k of None \<Rightarrow> acc k | Some v \<Rightarrow> Some v)"
proof (induction kvs arbitrary: acc)
  case Nil
  then show ?case by simp
next
  case (Cons kv kvs)
  then show ?case
    by (cases kv) (auto simp: sig_assign_def map_add_def split: option.splits)
qed

lemma map_of_rev_distinct: "distinct (map fst kvs) \<Longrightarrow> map_of (rev kvs) = map_of kvs"
proof -
  assume d: "distinct (map fst kvs)"
  then have "distinct (map fst (rev kvs))" by (simp add: rev_map[symmetric])
  then show ?thesis using d by (simp add: map_of_inject_set)
qed

lemma map_map_cong: "\<forall>x\<in>set xs. f (g x) = h x \<Longrightarrow> map f (map g xs) = map h xs"
  by simp

lemma comma_notin_quoted_pair:
  "CHR '','' \<notin> set (fst kv) \<Longrightarrow> CHR '','' \<notin> set (snd kv) \<Longrightarrow> CHR '','' \<notin> set (quoted_pair kv)"
  by (simp add: quoted_pair_def)

text \<open>
  Claim C3, as the code has it. For a header of \<^verbatim>\<open>key="value"\<close> pairs joined by commas,
  with distinct keys, in which no key and no value contains a comma or an equals sign
  (and no key contains a double quote or is \<^verbatim>\<open>__proto__\<close>), the parser binds every key
  to its complete unquoted value and binds nothing else. It makes no check for required
  keys: one that the header lacks is simply unbound.
\<close>

theorem parse_signature_header_quoted_pairs:
  assumes wf: "\<forall>kv\<in>set kvs. CHR '','' \<notin> set (fst kv) \<and> CHR ''='' \<notin> set (fst kv)
                 \<and> CHR 0x22 \<notin> set (fst kv) \<and> fst kv \<noteq> ''__proto__''
                 \<and> CHR '','' \<notin> set (snd kv) \<and> CHR ''='' \<notin> set (snd kv)"
      and dist: "distinct (map fst kvs)"
  shows "parse_signature_header (signature_of kvs) = map_of kvs"
proof (cases "kvs = []")
  case True
  then show ?thesis
    by (simp add: parse_signature_header_def signature_of_def sig_assign_def)
next
  case False
  have "\<forall>p\<in>set (map quoted_pair kvs). CHR '','' \<notin> set p"
    using wf by (auto simp: comma_notin_quoted_pair)
  with False have pairs: "split_on CHR '','' (signature_of kvs) = map quoted_pair kvs"
    unfolding signature_of_def by (intro split_on_join) simp_all
  have els: "map (\<lambda>pair. map strip_quotes (split_on CHR ''='' pair)) (map quoted_pair kvs)
               = map (\<lambda>kv. [fst kv, snd kv]) kvs"
  proof (rule map_map_cong)
    show "\<forall>kv\<in>set kvs. map strip_quotes (split_on CHR ''='' (quoted_pair kv)) = [fst kv, snd kv]"
    proof
      fix kv assume "kv \<in> set kvs"
      with wf have "CHR ''='' \<notin> set (fst kv)" "CHR ''='' \<notin> set (snd kv)"
        "CHR 0x22 \<notin> set (fst kv)"
        by auto
      then show "map strip_quotes (split_on CHR ''='' (quoted_pair kv)) = [fst kv, snd kv]"
        using split_pair [of "fst kv" "snd kv"] by simp
    qed
  qed
  have noproto: "\<forall>kv\<in>set kvs. fst kv \<noteq> ''__proto__''" using wf by auto
  show ?thesis
  proof
    fix k
    have "parse_signature_header (signature_of kvs) k =
            (case map_of (rev kvs) k of None \<Rightarrow> None | Some v \<Rightarrow> Some v)"
      unfolding parse_signature_header_def pairs els
      by (rule foldl_sig_assign [OF noproto])
    also have "\<dots> = map_of (rev kvs) k" by (simp split: option.splits)
    also have "\<dots> = map_of kvs k" using dist by (simp add: map_of_rev_distinct)
    finally show "parse_signature_header (signature_of kvs) k = map_of kvs k" .
  qed
qed

theorem parse_signature_header_quoted_pairs_witness:
  "parse_signature_header (signature_of (sample_pairs ''c2lnbmVk'')) ''keyId''
      = Some ''https://remote.example/actor''
   \<and> parse_signature_header (signature_of (sample_pairs ''c2lnbmVk'')) ''headers''
      = Some ''(request-target) host date''
   \<and> parse_signature_header (signature_of (sample_pairs ''c2lnbmVk'')) ''signature''
      = Some ''c2lnbmVk''
   \<and> parse_signature_header (signature_of (sample_pairs ''c2lnbmVk'')) ''algorithm'' = None"
proof -
  have wf: "\<forall>kv\<in>set (sample_pairs ''c2lnbmVk''). CHR '','' \<notin> set (fst kv) \<and> CHR ''='' \<notin> set (fst kv)
                 \<and> CHR 0x22 \<notin> set (fst kv) \<and> fst kv \<noteq> ''__proto__''
                 \<and> CHR '','' \<notin> set (snd kv) \<and> CHR ''='' \<notin> set (snd kv)"
    by (simp add: sample_pairs_def)
  have dist: "distinct (map fst (sample_pairs ''c2lnbmVk''))"
    by (simp add: sample_pairs_def)
  show ?thesis
    using parse_signature_header_quoted_pairs [OF wf dist] by (simp add: sample_pairs_def)
qed

text \<open>
  Claim C3 as stated fails twice. A value with an equals sign is cut at it: the padded
  base64 text \<^verbatim>\<open>c2lnbmVkIQ==\<close> is bound as \<^verbatim>\<open>c2lnbmVkIQ\<close>. And a header without the
  \<^verbatim>\<open>signature\<close> key is not rejected as malformed: the handler goes on to fetch the
  actor and to build the comparison string, and then throws a TypeError that nothing
  catches.
\<close>

theorem parse_signature_header_counterexample:
  "parse_signature_header (signature_of (sample_pairs ''c2lnbmVkIQ=='')) ''signature''
      = Some ''c2lnbmVkIQ''
   \<and> parse_signature_header (signature_of (sample_pairs ''c2lnbmVkIQ=='')) ''signature''
      \<noteq> Some ''c2lnbmVkIQ==''
   \<and> inbox_handler sample_env None
        (sample_request
           (Some ''keyId=\"https://remote.example/actor\",headers=\"(request-target) host date\"'')) []
      = (Uncaught TypeError, [])"
  by code_simp

subsection \<open>Signing string, acceptance and rejection\<close>

lemma js_join_spec_join: "js_join [CHR 0x0A] ls = spec_join ls"
proof (induction ls rule: induct_list012)
  case 1
  then show ?case by (simp add: spec_join_def)
next
  case (2 x)
  then show ?case by (simp add: spec_join_def)
next
  case (3 x y zs)
  then show ?case by (simp add: spec_join_def)
qed

lemma comparison_line_fixed:
  assumes "(if name = ''(request-target)''
            then Some ''(request-target): post /activitypub/inbox''
            else spec_signing_line req name) = Some l"
  shows "comparison_line req name = Inr l"
  using assms
  by (auto simp: spec_signing_line_def comparison_line_def split: sum.splits option.splits if_splits)

lemma map_throwing_fixed:
  "those (map (\<lambda>name. if name = ''(request-target)''
                       then Some ''(request-target): post /activitypub/inbox''
                       else spec_signing_line req name) names) = Some ls \<Longrightarrow>
   map_throwing (comparison_line req) names = Inr ls"
proof (induction names arbitrary: ls)
  case Nil
  then show ?case by simp
next
  case (Cons n names)
  from Cons.prems obtain l ls'
    where l: "(if n = ''(request-target)''
               then Some ''(request-target): post /activitypub/inbox''
               else spec_signing_line req n) = Some l"
    and ls': "those (map (\<lambda>name. if name = ''(request-target)''
                       then Some ''(request-target): post /activitypub/inbox''
                       else spec_signing_line req name) names) = Some ls'"
    and eq: "ls = l # ls'"
    by (auto split: option.splits)
  from comparison_line_fixed [OF l] Cons.IH [OF ls'] eq show ?case by simp
qed

lemma spec_signing_line_canonical:
  assumes "inbox_canonical req"
  shows "spec_signing_line req name =
           (if name = ''(request-target)''
            then Some ''(request-target): post /activitypub/inbox''
            else spec_signing_line req name)"
proof -
  have "toLowerCase ''POST'' = ''post''"
    by (simp add: toLowerCase_def to_lower_def is_upper_def)
  with assms show ?thesis
    by (simp add: inbox_canonical_def spec_signing_line_def)
qed

text \<open>
  Claim C4, as the code has it. The comparison string has one line for each name of the
  space-separated \<^verbatim>\<open>headers\<close> field, in the listed order, joined by newlines: for the
  pseudo-header the fixed line \<^verbatim>\<open>(request-target): post /activitypub/inbox\<close>, whatever
  the path of the request, and \<^verbatim>\<open>name: value\<close> with the value of the request's header
  for every other name. For a POST whose path is \<^verbatim>\<open>/activitypub/inbox\<close> as written,
  the fixed line is the lower-case method, a space and the path, and the comparison
  string is the signing string of the design.
\<close>

theorem comparison_string_fixed_target:
  "(those (map (\<lambda>name. if name = ''(request-target)''
                        then Some ''(request-target): post /activitypub/inbox''
                        else spec_signing_line req name)
               (split_on CHR '' '' headers)) = Some ls
      \<longrightarrow> comparison_string req (Some headers) = Inr (spec_join ls))
   \<and> (inbox_canonical req \<and> spec_signing_string req headers = Some s
      \<longrightarrow> comparison_string req (Some headers) = Inr s)"
proof (intro conjI impI)
  assume "those (map (\<lambda>name. if name = ''(request-target)''
                        then Some ''(request-target): post /activitypub/inbox''
                        else spec_signing_line req name)
               (split_on CHR '' '' headers)) = Some ls"
  from map_throwing_fixed [OF this] show "comparison_string req (Some headers) = Inr (spec_join ls)"
    by (simp add: comparison_string_def js_join_spec_join)
next
  assume a: "inbox_canonical req \<and> spec_signing_string req headers = Some s"
  then have c: "inbox_canonical req" by simp
  from a obtain ls
    where ls: "those (map (spec_signing_line req) (split_on CHR '' '' headers)) = Some ls"
    and s: "s = spec_join ls"
    by (auto simp: spec_signing_string_def)
  have "map (spec_signing_line req) (split_on CHR '' '' headers)
          = map (\<lambda>name. if name = ''(request-target)''
                        then Some ''(request-target): post /activitypub/inbox''
                        else spec_signing_line req name) (split_on CHR '' '' headers)"
    by (rule map_cong [OF refl]) (rule spec_signing_line_canonical [OF c])
  with ls have "those (map (\<lambda>name. if name = ''(request-target)''
                        then Some ''(request-target): post /activitypub/inbox''
                        else spec_signing_line req name) (split_on CHR '' '' headers)) = Some ls"
    by simp
  from map_throwing_fixed [OF this] s show "comparison_string req (Some headers) = Inr s"
    by (simp add: comparison_string_def js_join_spec_join)
qed

theorem comparison_string_fixed_target_witness:
  "inbox_canonical (sample_request None)
   \<and> spec_signing_string (sample_request None) ''(request-target) host date''
      = Some sample_signed_text
   \<and> comparison_string (sample_request None) (Some ''(request-target) host date'')
      = Inr sample_signed_text
   \<and> comparison_string ((sample_request None)\<lparr>req_path := ''/activitypub/inbox/''\<rparr>)
        (Some ''(request-target) host'')
      = Inr (''(request-target): post /activitypub/inbox'' @ CHR 0x0A # ''host: gath.io'')"
proof -
  let ?slash = "(sample_request None)\<lparr>req_path := ''/activitypub/inbox/''\<rparr>"
  have r: "inbox_canonical (sample_request None)"
    by (simp add: inbox_canonical_def sample_request_def)
  have s: "spec_signing_string (sample_request None) ''(request-target) host date''
             = Some sample_signed_text"
    by code_simp
  have l: "those (map (\<lambda>name. if name = ''(request-target)''
                        then Some ''(request-target): post /activitypub/inbox''
                        else spec_signing_line ?slash name)
               (split_on CHR '' '' ''(request-target) host''))
            = Some [''(request-target): post /activitypub/inbox'', ''host: gath.io'']"
    by code_simp
  have j: "spec_join [''(request-target): post /activitypub/inbox'', ''host: gath.io'']
             = ''(request-target): post /activitypub/inbox'' @ CHR 0x0A # ''host: gath.io''"
    by code_simp
  note t = comparison_string_fixed_target
  from t [of "sample_request None" "''(request-target) host date''" "[]" sample_signed_text] r s
  have "comparison_string (sample_request None) (Some ''(request-target) host date'')
          = Inr sample_signed_text"
    by blast
  moreover from t [of ?slash "''(request-target) host''"
      "[''(request-target): post /activitypub/inbox'', ''host: gath.io'']" "[]"] l j
  have "comparison_string ?slash (Some ''(request-target) host'')
          = Inr (''(request-target): post /activitypub/inbox'' @ CHR 0x0A # ''host: gath.io'')"
    by simp
  ultimately show ?thesis using r s by simp
qed

text \<open>
  Claim C4 as stated fails for a request that the route serves under another spelling
  of the path. A POST to \<^verbatim>\<open>/activitypub/inbox/\<close> reaches the handler; the design's
  line for the pseudo-header ends in that path, the handler's line does not.
\<close>

theorem comparison_string_counterexample:
  "inbox_route ((sample_request None)\<lparr>req_path := ''/activitypub/inbox/''\<rparr>)
   \<and> spec_signing_string ((sample_request None)\<lparr>req_path := ''/activitypub/inbox/''\<rparr>)
        ''(request-target) host''
      = Some (''(request-target): post /activitypub/inbox/'' @ CHR 0x0A # ''host: gath.io'')
   \<and> comparison_string ((sample_request None)\<lparr>req_path := ''/activitypub/inbox/''\<rparr>)
        (Some ''(request-target) host'')
      = Inr (''(request-target): post /activitypub/inbox'' @ CHR 0x0A # ''host: gath.io'')
   \<and> comparison_string ((sample_request None)\<lparr>req_path := ''/activitypub/inbox/''\<rparr>)
        (Some ''(request-target) host'')
      \<noteq> Inr (''(request-target): post /activitypub/inbox/'' @ CHR 0x0A # ''host: gath.io'')"
  by code_simp

lemma req_get_signature: "req_get req ''signature'' = Inr (req_headers req ''signature'')"
  by (simp add: req_get_def toLowerCase_def to_lower_def is_upper_def)

lemma inbox_handler_signed:
  assumes "req_get req ''signature'' = Inr (Some signature)" and "signature \<noteq> []"
  shows "inbox_handler env cfg req st =
           inbox_callback env req (parse_signature_header signature)
             (http_get env (parse_signature_header signature ''keyId'')) st"
  using assms by (simp add: inbox_handler_def js_truthy_isFederated Let_def)

lemma inbox_handler_unsigned:
  assumes "req_get req ''signature'' = Inr None \<or> req_get req ''signature'' = Inr (Some [])"
  shows "inbox_handler env cfg req st = (Respond 401 ''No signature provided.'', st)"
  using assms by (auto simp: inbox_handler_def js_truthy_isFederated)

lemma actor_public_key_of_actor_key:
  assumes "json_parse env body = Some doc" and "actor_key doc = Some pem"
  shows "actor_public_key env (Some body) = Inr (Some (JStr pem))"
  using assms
  by (auto simp: actor_public_key_def actor_key_def split: json.splits option.splits)

lemma inbox_callback_verified:
  assumes "actor_public_key env actor = Inr publicKey" and "buffer_from env publicKey = Inr key"
    and "comparison_string req (sh ''headers'') = Inr cs" and "sh ''signature'' = Some sg"
  shows "inbox_callback env req sh actor st =
           (case rsa_sha256_verify env cs key (base64_decode env sg) of
              None \<Rightarrow> (Respond 401 ''Signature could not be verified: '', st)
            | Some False \<Rightarrow> (Respond 401 ''Signature could not be verified.'', st)
            | Some True \<Rightarrow>
                (case process_inbox env req st of
                   (True, st') \<Rightarrow> (ProcessInbox, st')
                 | (False, st') \<Rightarrow> (ProcessInboxThrew, st')))"
  using assms by (simp add: inbox_callback_def)

lemma inbox_callback_invokes:
  assumes "actor_public_key env actor = Inr publicKey" and "buffer_from env publicKey = Inr key"
  shows "invokes_processing (fst (inbox_callback env req sh actor st)) \<longleftrightarrow>
           (\<exists>cs sg. comparison_string req (sh ''headers'') = Inr cs \<and> sh ''signature'' = Some sg
               \<and> rsa_sha256_verify env cs key (base64_decode env sg) = Some True)"
  using assms
  by (auto simp: inbox_callback_def split: sum.splits option.splits bool.splits prod.splits)

lemma inbox_callback_rejects:
  assumes "actor_public_key env actor = Inr publicKey" and "buffer_from env publicKey = Inr key"
    and "comparison_string req (sh ''headers'') = Inr cs" and "sh ''signature'' = Some sg"
    and "rsa_sha256_verify env cs key (base64_decode env sg) \<noteq> Some True"
  shows "\<exists>body. inbox_callback env req sh actor st = (Respond 401 body, st)"
  using assms
  by (auto simp: inbox_callback_def split: sum.splits option.splits bool.splits prod.splits)

lemma inbox_callback_store:
  "\<not> invokes_processing (fst (inbox_callback env req sh actor st)) \<Longrightarrow>
   snd (inbox_callback env req sh actor st) = st"
  by (auto simp: inbox_callback_def split: sum.splits option.splits bool.splits prod.splits)

text \<open>
  Claim C1. Take a request with a non-empty Signature header whose \<^verbatim>\<open>keyId\<close> is
  fetched and parsed to an actor document with a PEM public key. The handler invokes
  inbox processing if and only if the comparison string was built, the header has a
  signature, and RSA-SHA256 verification of the base64-decoded signature against the
  comparison string under the fetched key succeeds. When it succeeds, the handler's
  result is that of \<^verbatim>\<open>processInbox\<close> applied to the request and the store. When
  processing is not invoked the store is left as it was, and when the verification
  returns false or throws, the handler answers 401.
\<close>

theorem inbox_accepts_iff_verified:
  assumes "req_get req ''signature'' = Inr (Some signature)" and "signature \<noteq> []"
    and "sh = parse_signature_header signature"
    and "http_get env (sh ''keyId'') = Some body"
    and "json_parse env body = Some doc" and "actor_key doc = Some pem"
  shows "(invokes_processing (fst (inbox_handler env cfg req st)) \<longleftrightarrow>
            (\<exists>cs sg. comparison_string req (sh ''headers'') = Inr cs \<and> sh ''signature'' = Some sg
               \<and> rsa_sha256_verify env cs pem (base64_decode env sg) = Some True))
         \<and> (\<forall>cs sg. comparison_string req (sh ''headers'') = Inr cs \<and> sh ''signature'' = Some sg
               \<and> rsa_sha256_verify env cs pem (base64_decode env sg) = Some True
               \<longrightarrow> inbox_handler env cfg req st =
                     (if fst (process_inbox env req st) then ProcessInbox else ProcessInboxThrew,
                      snd (process_inbox env req st)))
         \<and> (\<not> invokes_processing (fst (inbox_handler env cfg req st))
               \<longrightarrow> snd (inbox_handler env cfg req st) = st)
         \<and> (\<forall>cs sg. comparison_string req (sh ''headers'') = Inr cs \<and> sh ''signature'' = Some sg
               \<and> rsa_sha256_verify env cs pem (base64_decode env sg) \<noteq> Some True
               \<longrightarrow> (\<exists>msg. inbox_handler env cfg req st = (Respond 401 msg, st)))"
proof -
  have h: "inbox_handler env cfg req st = inbox_callback env req sh (Some body) st"
    using inbox_handler_signed [OF assms(1,2), of env cfg st] assms(4) unfolding assms(3) by simp
  have k: "actor_public_key env (Some body) = Inr (Some (JStr pem))"
    using assms(5,6) by (rule actor_public_key_of_actor_key)
  have b: "buffer_from env (Some (JStr pem)) = Inr pem" by simp
  show ?thesis
    unfolding h
  proof (intro conjI allI impI)
    show "invokes_processing (fst (inbox_callback env req sh (Some body) st)) \<longleftrightarrow>
            (\<exists>cs sg. comparison_string req (sh ''headers'') = Inr cs \<and> sh ''signature'' = Some sg
               \<and> rsa_sha256_verify env cs pem (base64_decode env sg) = Some True)"
      by (rule inbox_callback_invokes [OF k b])
  next
    fix cs sg
    assume a: "comparison_string req (sh ''headers'') = Inr cs \<and> sh ''signature'' = Some sg
               \<and> rsa_sha256_verify env cs pem (base64_decode env sg) = Some True"
    then have c: "comparison_string req (sh ''headers'') = Inr cs" and g: "sh ''signature'' = Some sg"
      and v: "rsa_sha256_verify env cs pem (base64_decode env sg) = Some True"
      by simp_all
    show "inbox_callback env req sh (Some body) st =
            (if fst (process_inbox env req st) then ProcessInbox else ProcessInboxThrew,
             snd (process_inbox env req st))"
      unfolding inbox_callback_verified [OF k b c g] v
      by (cases "process_inbox env req st") simp
  next
    assume "\<not> invokes_processing (fst (inbox_callback env req sh (Some body) st))"
    then show "snd (inbox_callback env req sh (Some body) st) = st"
      by (rule inbox_callback_store)
  next
    fix cs sg
    assume a: "comparison_string req (sh ''headers'') = Inr cs \<and> sh ''signature'' = Some sg
               \<and> rsa_sha256_verify env cs pem (base64_decode env sg) \<noteq> Some True"
    then have "comparison_string req (sh ''headers'') = Inr cs" and "sh ''signature'' = Some sg"
      and "rsa_sha256_verify env cs pem (base64_decode env sg) \<noteq> Some True"
      by simp_all
    then show "\<exists>msg. inbox_callback env req sh (Some body) st = (Respond 401 msg, st)"
      by (rule inbox_callback_rejects [OF k b])
  qed
qed

text \<open>
  Claim C2. A request without a Signature header (or with an empty one) is answered
  with 401. A request whose signature is present but fails verification, by a false
  result or an exception of the verifier, is answered with 401 as well. In both cases
  inbox processing is not reached and the store, follower lists included, is unchanged.
\<close>

theorem inbox_rejects_unsigned_or_unverified:
  "(req_get req ''signature'' = Inr None \<or> req_get req ''signature'' = Inr (Some [])
      \<longrightarrow> inbox_handler env cfg req st = (Respond 401 ''No signature provided.'', st))
   \<and> (req_get req ''signature'' = Inr (Some signature) \<and> signature \<noteq> []
        \<and> sh = parse_signature_header signature
        \<and> actor_public_key env (http_get env (sh ''keyId'')) = Inr publicKey
        \<and> buffer_from env publicKey = Inr key
        \<and> comparison_string req (sh ''headers'') = Inr cs \<and> sh ''signature'' = Some sg
        \<and> rsa_sha256_verify env cs key (base64_decode env sg) \<noteq> Some True
      \<longrightarrow> (\<exists>msg. inbox_handler env cfg req st = (Respond 401 msg, st))
          \<and> \<not> invokes_processing (fst (inbox_handler env cfg req st)))"
proof (intro conjI impI)
  assume "req_get req ''signature'' = Inr None \<or> req_get req ''signature'' = Inr (Some [])"
  then show "inbox_handler env cfg req st = (Respond 401 ''No signature provided.'', st)"
    by (rule inbox_handler_unsigned)
next
  assume a: "req_get req ''signature'' = Inr (Some signature) \<and> signature \<noteq> []
        \<and> sh = parse_signature_header signature
        \<and> actor_public_key env (http_get env (sh ''keyId'')) = Inr publicKey
        \<and> buffer_from env publicKey = Inr key
        \<and> comparison_string req (sh ''headers'') = Inr cs \<and> sh ''signature'' = Some sg
        \<and> rsa_sha256_verify env cs key (base64_decode env sg) \<noteq> Some True"
  then have g: "req_get req ''signature'' = Inr (Some signature)" "signature \<noteq> []"
    and sh: "sh = parse_signature_header signature"
    and f: "actor_public_key env (http_get env (sh ''keyId'')) = Inr publicKey"
      "buffer_from env publicKey = Inr key"
      "comparison_string req (sh ''headers'') = Inr cs" "sh ''signature'' = Some sg"
      "rsa_sha256_verify env cs key (base64_decode env sg) \<noteq> Some True"
    by blast+
  have h: "inbox_handler env cfg req st = inbox_callback env req sh (http_get env (sh ''keyId'')) st"
    unfolding sh by (rule inbox_handler_signed [OF g])
  have r: "\<exists>msg. inbox_callback env req sh (http_get env (sh ''keyId'')) st = (Respond 401 msg, st)"
    using f by (rule inbox_callback_rejects)
  with h show "\<exists>msg. inbox_handler env cfg req st = (Respond 401 msg, st)" by simp
  from r h show "\<not> invokes_processing (fst (inbox_handler env cfg req st))" by auto
qed

lemma actor_public_key_throws:
  "(\<exists>err. actor_public_key env actor = Inl err) \<longleftrightarrow>
     (actor = None
      \<or> (\<exists>body. actor = Some body
            \<and> (json_parse env body = None \<or> json_parse env body = Some JNull)))"
proof (cases actor)
  case None
  then show ?thesis by (simp add: actor_public_key_def)
next
  case (Some body)
  show ?thesis
  proof (cases "json_parse env body")
    case None
    with Some show ?thesis by (simp add: actor_public_key_def)
  next
    case (Some doc)
    have "(\<exists>err. actor_public_key env (Some body) = Inl err) \<longleftrightarrow> doc = JNull"
    proof (cases doc)
      case (JObj kvs)
      show ?thesis
      proof (cases "map_of kvs ''publicKey''")
        case None
        with JObj Some show ?thesis by (simp add: actor_public_key_def)
      next
        case (Some pkv)
        with JObj \<open>json_parse env body = Some doc\<close> show ?thesis
          by (cases pkv) (simp_all add: actor_public_key_def)
      qed
    qed (use Some in \<open>simp_all add: actor_public_key_def\<close>)
    with Some \<open>actor = Some body\<close> show ?thesis by simp
  qed
qed

lemma inbox_callback_500:
  "(\<exists>msg. inbox_callback env req sh actor st = (Respond 500 msg, st)) \<longleftrightarrow>
     (\<exists>err. actor_public_key env actor = Inl err)"
  by (auto simp: inbox_callback_def split: sum.splits option.splits bool.splits prod.splits)

text \<open>
  Claim C6, as the code has it. For a request with a Signature header, the handler
  answers with status 500 exactly when the fetch of \<^verbatim>\<open>keyId\<close> gives no body, or gives
  a body that \<^verbatim>\<open>JSON.parse\<close> rejects or parses to \<^verbatim>\<open>null\<close>; the activity is then not
  processed and the store is unchanged. For a body that parses to any other JSON value
  the handler itself does not answer 500.
\<close>

theorem inbox_actor_parse_failure:
  assumes "req_get req ''signature'' = Inr (Some signature)" and "signature \<noteq> []"
    and "sh = parse_signature_header signature"
  shows "((\<exists>msg. inbox_handler env cfg req st = (Respond 500 msg, st)) \<longleftrightarrow>
            (http_get env (sh ''keyId'') = None
             \<or> (\<exists>body. http_get env (sh ''keyId'') = Some body
                   \<and> (json_parse env body = None \<or> json_parse env body = Some JNull))))
         \<and> (http_get env (sh ''keyId'') = None
             \<or> (\<exists>body. http_get env (sh ''keyId'') = Some body
                   \<and> (json_parse env body = None \<or> json_parse env body = Some JNull))
            \<longrightarrow> inbox_handler env cfg req st = (Respond 500 ''Actor could not be parsed'', st)
                \<and> \<not> invokes_processing (fst (inbox_handler env cfg req st)))"
proof -
  have h: "inbox_handler env cfg req st
      = inbox_callback env req sh (http_get env (sh ''keyId'')) st"
    unfolding assms(3) by (rule inbox_handler_signed [OF assms(1,2)])
  show ?thesis
    unfolding h
  proof (intro conjI impI)
    show "(\<exists>msg. inbox_callback env req sh (http_get env (sh ''keyId'')) st = (Respond 500 msg, st)) \<longleftrightarrow>
            (http_get env (sh ''keyId'') = None
             \<or> (\<exists>body. http_get env (sh ''keyId'') = Some body
                   \<and> (json_parse env body = None \<or> json_parse env body = Some JNull)))"
      unfolding inbox_callback_500 by (rule actor_public_key_throws)
  next
    assume "http_get env (sh ''keyId'') = None
             \<or> (\<exists>body. http_get env (sh ''keyId'') = Some body
                   \<and> (json_parse env body = None \<or> json_parse env body = Some JNull))"
    then have "\<exists>err. actor_public_key env (http_get env (sh ''keyId'')) = Inl err"
      unfolding actor_public_key_throws .
    then obtain err where e: "actor_public_key env (http_get env (sh ''keyId'')) = Inl err" ..
    then show "inbox_callback env req sh (http_get env (sh ''keyId'')) st
                 = (Respond 500 ''Actor could not be parsed'', st)"
      by (simp add: inbox_callback_def)
    from e show "\<not> invokes_processing (fst (inbox_callback env req sh (http_get env (sh ''keyId'')) st))"
      by (simp add: inbox_callback_def)
  qed
qed

lemma map_throwing_nonempty_names:
  "[] \<notin> set names \<Longrightarrow> \<exists>ls. map_throwing (comparison_line req) names = Inr ls"
proof (induction names)
  case Nil
  then show ?case by simp
next
  case (Cons n names)
  then have "n \<noteq> []" by auto
  then have "\<exists>l. comparison_line req n = Inr l"
    by (simp add: comparison_line_def req_get_def Let_def)
  with Cons show ?case by auto
qed

lemma comparison_string_fields_present:
  assumes "fields_present sh"
  shows "\<exists>cs. comparison_string req (sh ''headers'') = Inr cs"
proof -
  from assms obtain h where h: "sh ''headers'' = Some h" "[] \<notin> set (split_on CHR '' '' h)"
    by (auto simp: fields_present_def split: option.splits)
  from map_throwing_nonempty_names [OF h(2), of req] obtain ls
    where "map_throwing (comparison_line req) (split_on CHR '' '' h) = Inr ls" by blast
  with h(1) show ?thesis by (simp add: comparison_string_def)
qed

lemma inbox_callback_definite:
  assumes "fields_present sh" and "key_usable env actor"
  shows "is_response (fst (inbox_callback env req sh actor st))"
proof (cases "actor_public_key env actor")
  case (Inl err)
  then show ?thesis by (simp add: inbox_callback_def)
next
  case (Inr publicKey)
  with assms(2) obtain key where key: "buffer_from env publicKey = Inr key"
    by (auto simp: key_usable_def split: sum.splits)
  from comparison_string_fields_present [OF assms(1)] obtain cs
    where cs: "comparison_string req (sh ''headers'') = Inr cs" by blast
  from assms(1) obtain sg where sg: "sh ''signature'' = Some sg"
    by (auto simp: fields_present_def)
  show ?thesis
    unfolding inbox_callback_verified [OF Inr key cs sg]
    by (simp split: option.splits bool.splits prod.splits)
qed

text \<open>
  Claim C5, as the code has it. For every request, an exception while the fetched actor
  is parsed is answered with status 500, and an exception of the verifier with status
  401; neither is propagated. And for every request whose Signature header, if it has
  one, binds \<^verbatim>\<open>headers\<close> to non-empty names and binds \<^verbatim>\<open>signature\<close>, and whose actor
  key, if one is taken, is accepted by \<^verbatim>\<open>Buffer.from\<close>, the handler reaches a definite
  decision: a response, or inbox processing.
\<close>

theorem inbox_handler_definite:
  "(\<forall>signature sh. req_get req ''signature'' = Inr (Some signature) \<and> signature \<noteq> []
        \<and> sh = parse_signature_header signature \<longrightarrow>
       (\<forall>err. actor_public_key env (http_get env (sh ''keyId'')) = Inl err \<longrightarrow>
          inbox_handler env cfg req st = (Respond 500 ''Actor could not be parsed'', st))
     \<and> (\<forall>publicKey key cs sg.
          actor_public_key env (http_get env (sh ''keyId'')) = Inr publicKey
          \<and> buffer_from env publicKey = Inr key
          \<and> comparison_string req (sh ''headers'') = Inr cs \<and> sh ''signature'' = Some sg
          \<and> rsa_sha256_verify env cs key (base64_decode env sg) = None \<longrightarrow>
          inbox_handler env cfg req st = (Respond 401 ''Signature could not be verified: '', st)))
   \<and> ((\<forall>signature. req_get req ''signature'' = Inr (Some signature) \<and> signature \<noteq> [] \<longrightarrow>
          fields_present (parse_signature_header signature)
          \<and> key_usable env (http_get env (parse_signature_header signature ''keyId'')))
       \<longrightarrow> is_response (fst (inbox_handler env cfg req st)))"
proof (intro conjI allI impI)
  assume wf: "\<forall>signature. req_get req ''signature'' = Inr (Some signature) \<and> signature \<noteq> [] \<longrightarrow>
          fields_present (parse_signature_header signature)
          \<and> key_usable env (http_get env (parse_signature_header signature ''keyId''))"
  show "is_response (fst (inbox_handler env cfg req st))"
  proof (cases "req_headers req ''signature''")
    case None
    then show ?thesis by (simp add: inbox_handler_unsigned req_get_signature)
  next
    case (Some signature)
    show ?thesis
    proof (cases "signature = []")
      case True
      with Some show ?thesis by (simp add: inbox_handler_unsigned req_get_signature)
    next
      case False
      with Some have g: "req_get req ''signature'' = Inr (Some signature)"
        by (simp add: req_get_signature)
      with False wf have "fields_present (parse_signature_header signature)"
        "key_usable env (http_get env (parse_signature_header signature ''keyId''))" by auto
      then show ?thesis
        unfolding inbox_handler_signed [OF g False] by (rule inbox_callback_definite)
    qed
  qed
next
  fix signature sh err
  assume a: "req_get req ''signature'' = Inr (Some signature) \<and> signature \<noteq> []
        \<and> sh = parse_signature_header signature"
    and e: "actor_public_key env (http_get env (sh ''keyId'')) = Inl err"
  from a have g: "req_get req ''signature'' = Inr (Some signature)" "signature \<noteq> []"
    and sh: "sh = parse_signature_header signature" by blast+
  have "inbox_handler env cfg req st = inbox_callback env req sh (http_get env (sh ''keyId'')) st"
    unfolding sh by (rule inbox_handler_signed [OF g])
  with e show "inbox_handler env cfg req st = (Respond 500 ''Actor could not be parsed'', st)"
    by (simp add: inbox_callback_def)
next
  fix signature sh publicKey key cs sg
  assume a: "req_get req ''signature'' = Inr (Some signature) \<and> signature \<noteq> []
        \<and> sh = parse_signature_header signature"
    and v: "actor_public_key env (http_get env (sh ''keyId'')) = Inr publicKey
          \<and> buffer_from env publicKey = Inr key
          \<and> comparison_string req (sh ''headers'') = Inr cs \<and> sh ''signature'' = Some sg
          \<and> rsa_sha256_verify env cs key (base64_decode env sg) = None"
  from a have g: "req_get req ''signature'' = Inr (Some signature)" "signature \<noteq> []"
    and sh: "sh = parse_signature_header signature" by blast+
  have "inbox_handler env cfg req st = inbox_callback env req sh (http_get env (sh ''keyId'')) st"
    unfolding sh by (rule inbox_handler_signed [OF g])
  with v show "inbox_handler env cfg req st = (Respond 401 ''Signature could not be verified: '', st)"
    by (simp add: inbox_callback_def)
qed

theorem inbox_accepts_iff_verified_witness:
  "req_get (sample_request (Some (signature_of (sample_pairs ''c2lnbmVk'')))) ''signature''
      = Inr (Some (signature_of (sample_pairs ''c2lnbmVk'')))
   \<and> actor_key sample_actor_doc = Some ''PEM''
   \<and> rsa_sha256_verify sample_env sample_signed_text ''PEM'' (base64_decode sample_env ''c2lnbmVk'')
      = Some True
   \<and> inbox_handler sample_env None
        (sample_request (Some (signature_of (sample_pairs ''c2lnbmVk'')))) []
      = (ProcessInbox, [''https://remote.example/actor''])"
proof -
  let ?sig = "signature_of (sample_pairs ''c2lnbmVk'')"
  let ?req = "sample_request (Some ?sig)"
  have a1: "req_get ?req ''signature'' = Inr (Some ?sig)" by code_simp
  have a2: "?sig \<noteq> []" by code_simp
  have a4: "http_get sample_env (parse_signature_header ?sig ''keyId'') = Some sample_actor_body"
    by code_simp
  have a5: "json_parse sample_env sample_actor_body = Some sample_actor_doc" by code_simp
  have a6: "actor_key sample_actor_doc = Some ''PEM''" by code_simp
  have v: "comparison_string ?req (parse_signature_header ?sig ''headers'') = Inr sample_signed_text
           \<and> parse_signature_header ?sig ''signature'' = Some ''c2lnbmVk''
           \<and> rsa_sha256_verify sample_env sample_signed_text ''PEM''
                (base64_decode sample_env ''c2lnbmVk'') = Some True"
    by code_simp
  have p: "process_inbox sample_env ?req [] = (True, [''https://remote.example/actor''])"
    by (simp add: sample_env_def)
  note t = inbox_accepts_iff_verified [OF a1 a2 refl a4 a5 a6, of None "[]"]
  from t have "\<forall>cs sg. comparison_string ?req (parse_signature_header ?sig ''headers'') = Inr cs
               \<and> parse_signature_header ?sig ''signature'' = Some sg
               \<and> rsa_sha256_verify sample_env cs ''PEM'' (base64_decode sample_env sg) = Some True
               \<longrightarrow> inbox_handler sample_env None ?req [] =
                     (if fst (process_inbox sample_env ?req []) then ProcessInbox
                      else ProcessInboxThrew,
                      snd (process_inbox sample_env ?req []))"
    by (elim conjE)
  from this [rule_format, OF v] p
  have "inbox_handler sample_env None ?req [] = (ProcessInbox, [''https://remote.example/actor''])"
    by simp
  with a1 a6 v show ?thesis by simp
qed

theorem inbox_rejects_unsigned_or_unverified_witness:
  "inbox_handler sample_env None (sample_request None) [] = (Respond 401 ''No signature provided.'', [])
   \<and> (\<exists>msg. inbox_handler sample_env None
                (sample_request (Some (signature_of (sample_pairs ''Zm9yZ2Vk'')))) []
              = (Respond 401 msg, []))"
proof -
  let ?sig = "signature_of (sample_pairs ''Zm9yZ2Vk'')"
  let ?req = "sample_request (Some ?sig)"
  have u: "req_get (sample_request None) ''signature'' = Inr None
           \<or> req_get (sample_request None) ''signature'' = Inr (Some [])"
    by code_simp
  have f: "req_get ?req ''signature'' = Inr (Some ?sig) \<and> ?sig \<noteq> []
        \<and> actor_public_key sample_env (http_get sample_env (parse_signature_header ?sig ''keyId''))
            = Inr (Some (JStr ''PEM''))
        \<and> buffer_from sample_env (Some (JStr ''PEM'')) = Inr ''PEM''
        \<and> comparison_string ?req (parse_signature_header ?sig ''headers'') = Inr sample_signed_text
        \<and> parse_signature_header ?sig ''signature'' = Some ''Zm9yZ2Vk''
        \<and> rsa_sha256_verify sample_env sample_signed_text ''PEM''
             (base64_decode sample_env ''Zm9yZ2Vk'') \<noteq> Some True"
    by code_simp
  from u inbox_rejects_unsigned_or_unverified [of "sample_request None" sample_env None "[]"]
  have "inbox_handler sample_env None (sample_request None) [] = (Respond 401 ''No signature provided.'', [])"
    by blast
  moreover from f refl [of "parse_signature_header ?sig"] inbox_rejects_unsigned_or_unverified
    [of ?req sample_env None "[]" ?sig "parse_signature_header ?sig" "Some (JStr ''PEM'')" "''PEM''"
        sample_signed_text "''Zm9yZ2Vk''"]
  have "\<exists>msg. inbox_handler sample_env None ?req [] = (Respond 401 msg, [])"
    by blast
  ultimately show ?thesis by simp
qed

theorem inbox_actor_parse_failure_witness:
  "http_get sample_env (Some ''https://other.example/actor'') = None
   \<and> inbox_handler sample_env None
        (sample_request (Some (signature_of
           [(''keyId'', ''https://other.example/actor''),
            (''headers'', ''(request-target) host date''),
            (''signature'', ''c2lnbmVk'')]))) []
      = (Respond 500 ''Actor could not be parsed'', [])"
proof -
  let ?sig = "signature_of [(''keyId'', ''https://other.example/actor''),
            (''headers'', ''(request-target) host date''), (''signature'', ''c2lnbmVk'')]"
  let ?req = "sample_request (Some ?sig)"
  have a1: "req_get ?req ''signature'' = Inr (Some ?sig)" by code_simp
  have a2: "?sig \<noteq> []" by code_simp
  have k: "parse_signature_header ?sig ''keyId'' = Some ''https://other.example/actor''"
    by code_simp
  have n: "http_get sample_env (Some ''https://other.example/actor'') = None" by code_simp
  then have a4: "http_get sample_env (parse_signature_header ?sig ''keyId'') = None
         \<or> (\<exists>body. http_get sample_env (parse_signature_header ?sig ''keyId'') = Some body
               \<and> (json_parse sample_env body = None \<or> json_parse sample_env body = Some JNull))"
    using k by simp
  note t = inbox_actor_parse_failure [OF a1 a2 refl, of sample_env None "[]"]
  from t [THEN conjunct2, THEN mp, OF a4] n show ?thesis by simp
qed

text \<open>
  Claim C6 as stated fails. The fetch of \<^verbatim>\<open>keyId\<close> is answered with the JSON error
  object of a deleted actor, which is no actor document; it parses, the key stays the
  empty string, the verifier throws on it, and the handler answers 401, not 500.
\<close>

theorem inbox_actor_unresolved_counterexample:
  "http_get sample_env (Some ''https://remote.example/deleted'') = Some ''{\"error\":\"Gone\"}''
   \<and> actor_key (JObj [(''error'', JStr ''Gone'')]) = None
   \<and> inbox_handler sample_env None
        (sample_request (Some (signature_of
           [(''keyId'', ''https://remote.example/deleted''),
            (''headers'', ''(request-target) host date''),
            (''signature'', ''c2lnbmVk'')]))) []
      = (Respond 401 ''Signature could not be verified: '', [])"
  by code_simp

theorem inbox_handler_definite_witness:
  "fields_present (parse_signature_header (signature_of (sample_pairs ''c2lnbmVk'')))
   \<and> is_response (fst (inbox_handler sample_env None
        (sample_request (Some (signature_of (sample_pairs ''c2lnbmVk'')))) []))
   \<and> inbox_handler sample_env None
        (sample_request (Some ''keyId=\"https://other.example/actor\",signature=\"c2lnbmVk\"'')) []
      = (Respond 500 ''Actor could not be parsed'', [])"
proof -
  let ?sig = "signature_of (sample_pairs ''c2lnbmVk'')"
  let ?req = "sample_request (Some ?sig)"
  let ?bare = "''keyId=\"https://other.example/actor\",signature=\"c2lnbmVk\"''"
  let ?req' = "sample_request (Some ?bare)"
  have g: "req_get ?req ''signature'' = Inr (Some ?sig)" by code_simp
  have fp: "fields_present (parse_signature_header ?sig)" by code_simp
  have ku: "key_usable sample_env (http_get sample_env (parse_signature_header ?sig ''keyId''))"
    by code_simp
  have h: "\<forall>signature. req_get ?req ''signature'' = Inr (Some signature) \<and> signature \<noteq> [] \<longrightarrow>
             fields_present (parse_signature_header signature)
             \<and> key_usable sample_env (http_get sample_env (parse_signature_header signature ''keyId''))"
    using g fp ku by auto
  have d: "is_response (fst (inbox_handler sample_env None ?req []))"
    by (rule inbox_handler_definite [of ?req sample_env None "[]", THEN conjunct2, THEN mp, OF h])
  have b: "req_get ?req' ''signature'' = Inr (Some ?bare) \<and> ?bare \<noteq> []
        \<and> parse_signature_header ?bare = parse_signature_header ?bare"
    by (simp add: req_get_signature sample_request_def)
  have e: "actor_public_key sample_env
             (http_get sample_env (parse_signature_header ?bare ''keyId'')) = Inl SyntaxError"
    by code_simp
  note t = inbox_handler_definite [of ?req' sample_env None "[]", THEN conjunct1, rule_format]
  from t [OF b, THEN conjunct1, rule_format, OF e]
  have "inbox_handler sample_env None ?req' [] = (Respond 500 ''Actor could not be parsed'', [])" .
  with fp d show ?thesis by simp
qed

text \<open>
  Claim C5 as stated fails. With a Signature header that has no \<^verbatim>\<open>headers\<close> field,
  \<^verbatim>\<open>signature_header.headers.split\<close> throws outside every \<^verbatim>\<open>try\<close> block: the
  exception is propagated and no response is sent. And an actor that cannot be fetched is
  answered with 500, with or without that field, not with the 401 of an invalid
  signature.
\<close>

theorem inbox_handler_definite_counterexample:
  "inbox_handler sample_env None
      (sample_request (Some ''keyId=\"https://remote.example/actor\",signature=\"c2lnbmVk\"'')) []
     = (Uncaught TypeError, [])
   \<and> \<not> is_response (fst (inbox_handler sample_env None
      (sample_request (Some ''keyId=\"https://remote.example/actor\",signature=\"c2lnbmVk\"'')) []))
   \<and> inbox_handler sample_env None
        (sample_request (Some ''keyId=\"https://remote.example/gone\",signature=\"c2lnbmVk\"'')) []
     = (Respond 500 ''Actor could not be parsed'', [])"
  by code_simp

section \<open>Properties of the deletions and of the event page\<close>

lemma removal_waits_unlink:
  "removal_waits ph a ((case img of None \<Rightarrow> [] | Some i \<Rightarrow> if i = [] then [] else [UnlinkImage i]) @ t)
     = removal_waits ph a t"
  by (simp split: option.splits)

lemma delete_old_event_trace:
  assumes "ev_activityPubActor event = Some actor" and "actor \<noteq> []"
    and "ev_activityPubEvent event = Some ev" and "ev \<noteq> []"
    and "jp actor = Some a" and "jp ev = Some e"
  shows "delete_old_event jp bc event =
     (case ev_image event of None \<Rightarrow> [] | Some img \<Rightarrow> if img = [] then [] else [UnlinkImage img]) @
     BroadcastDelete a (ev_followers event) (ev_id event) #
       (case bc a (ev_followers event) (ev_id event) of
          None \<Rightarrow> []
        | Some statuses \<Rightarrow>
            BroadcastCallback statuses # BroadcastDelete e (ev_followers event) (ev_id event) #
              (case bc e (ev_followers event) (ev_id event) of
                 None \<Rightarrow> []
               | Some statuses' \<Rightarrow> [BroadcastCallback statuses', RemoveEvent (ev_oid event)]))"
  using assms by (simp add: delete_old_event_def)

lemma delete_event_route_trace:
  assumes "ev_editToken event = token" and "ev_activityPubActor event = Some actor"
    and "jp actor = Some a"
  shows "delete_event_route jp bc db_ok (Some event) eventID token =
     BroadcastDelete a (ev_followers event) eventID #
       (case bc a (ev_followers event) eventID of
          None \<Rightarrow> []
        | Some statuses \<Rightarrow>
            BroadcastCallback statuses # RemoveEvent eventID #
              (if db_ok then
                 (case ev_image event of None \<Rightarrow> [] | Some img \<Rightarrow> if img = [] then [] else [UnlinkImage img]) @
                 [Redirect ''/'']
               else [Send ''Sorry! Something went wrong (error deleting): '']))"
  using assms by (simp add: delete_event_route_def)

text \<open>
  Claim C7. In the cleanup job, for an event whose stored \<^verbatim>\<open>activityPubActor\<close> and
  \<^verbatim>\<open>activityPubEvent\<close> are non-empty and parse, and in the delete route, for an event
  whose edit token matches and whose stored \<^verbatim>\<open>activityPubActor\<close> parses: the Delete
  broadcast is issued with the snapshot parsed from the stored field, the removal of the
  record comes only after that broadcast was issued and its completion callback fired,
  and the removal happens exactly when the callbacks fire, whatever statuses they report.
\<close>

theorem delete_waits_for_broadcast:
  "(ev_activityPubActor event = Some actor \<and> actor \<noteq> []
      \<and> ev_activityPubEvent event = Some ev \<and> ev \<noteq> []
      \<and> jp actor = Some a \<and> jp ev = Some e
    \<longrightarrow> removal_waits Pending a (delete_old_event jp bc event)
        \<and> removal_waits Pending e (delete_old_event jp bc event)
        \<and> BroadcastDelete a (ev_followers event) (ev_id event) \<in> set (delete_old_event jp bc event)
        \<and> (RemoveEvent (ev_oid event) \<in> set (delete_old_event jp bc event) \<longleftrightarrow>
             (\<exists>s s'. bc a (ev_followers event) (ev_id event) = Some s
                    \<and> bc e (ev_followers event) (ev_id event) = Some s')))
   \<and> (ev_editToken event = token \<and> ev_activityPubActor event = Some actor \<and> jp actor = Some a
    \<longrightarrow> removal_waits Pending a (delete_event_route jp bc db_ok (Some event) eventID token)
        \<and> BroadcastDelete a (ev_followers event) eventID
             \<in> set (delete_event_route jp bc db_ok (Some event) eventID token)
        \<and> (RemoveEvent eventID \<in> set (delete_event_route jp bc db_ok (Some event) eventID token) \<longleftrightarrow>
             (\<exists>s. bc a (ev_followers event) eventID = Some s)))"
proof (intro conjI impI)
  assume h: "ev_activityPubActor event = Some actor \<and> actor \<noteq> []
      \<and> ev_activityPubEvent event = Some ev \<and> ev \<noteq> []
      \<and> jp actor = Some a \<and> jp ev = Some e"
  then have f: "ev_activityPubActor event = Some actor" "actor \<noteq> []"
    "ev_activityPubEvent event = Some ev" "ev \<noteq> []" "jp actor = Some a" "jp ev = Some e"
    by simp_all
  have t: "delete_old_event jp bc event =
     (case ev_image event of None \<Rightarrow> [] | Some img \<Rightarrow> if img = [] then [] else [UnlinkImage img]) @
     BroadcastDelete a (ev_followers event) (ev_id event) #
       (case bc a (ev_followers event) (ev_id event) of
          None \<Rightarrow> []
        | Some statuses \<Rightarrow>
            BroadcastCallback statuses # BroadcastDelete e (ev_followers event) (ev_id event) #
              (case bc e (ev_followers event) (ev_id event) of
                 None \<Rightarrow> []
               | Some statuses' \<Rightarrow> [BroadcastCallback statuses', RemoveEvent (ev_oid event)]))"
    using f by (rule delete_old_event_trace)
  show "removal_waits Pending a (delete_old_event jp bc event)"
    unfolding t removal_waits_unlink by (simp split: option.splits)
  show "removal_waits Pending e (delete_old_event jp bc event)"
    unfolding t removal_waits_unlink by (simp split: option.splits)
  show "BroadcastDelete a (ev_followers event) (ev_id event) \<in> set (delete_old_event jp bc event)"
    unfolding t by simp
  show "RemoveEvent (ev_oid event) \<in> set (delete_old_event jp bc event) \<longleftrightarrow>
             (\<exists>s s'. bc a (ev_followers event) (ev_id event) = Some s
                    \<and> bc e (ev_followers event) (ev_id event) = Some s')"
    unfolding t
    by (cases "bc a (ev_followers event) (ev_id event)";
        cases "bc e (ev_followers event) (ev_id event)")
       (simp_all split: option.splits)
next
  assume h: "ev_editToken event = token \<and> ev_activityPubActor event = Some actor \<and> jp actor = Some a"
  then have f: "ev_editToken event = token" "ev_activityPubActor event = Some actor"
    "jp actor = Some a"
    by simp_all
  have t: "delete_event_route jp bc db_ok (Some event) eventID token =
     BroadcastDelete a (ev_followers event) eventID #
       (case bc a (ev_followers event) eventID of
          None \<Rightarrow> []
        | Some statuses \<Rightarrow>
            BroadcastCallback statuses # RemoveEvent eventID #
              (if db_ok then
                 (case ev_image event of None \<Rightarrow> [] | Some img \<Rightarrow> if img = [] then [] else [UnlinkImage img]) @
                 [Redirect ''/'']
               else [Send ''Sorry! Something went wrong (error deleting): '']))"
    using f by (rule delete_event_route_trace)
  show "removal_waits Pending a (delete_event_route jp bc db_ok (Some event) eventID token)"
    unfolding t by (simp split: option.splits)
  show "BroadcastDelete a (ev_followers event) eventID
             \<in> set (delete_event_route jp bc db_ok (Some event) eventID token)"
    unfolding t by simp
  show "RemoveEvent eventID \<in> set (delete_event_route jp bc db_ok (Some event) eventID token) \<longleftrightarrow>
             (\<exists>s. bc a (ev_followers event) eventID = Some s)"
    unfolding t by (cases "bc a (ev_followers event) eventID") simp_all
qed



theorem delete_waits_for_broadcast_witness:
  "removal_waits Pending sample_actor_doc (delete_old_event sample_parse sample_broadcast sample_event)
   \<and> RemoveEvent ''oid1'' \<in> set (delete_old_event sample_parse sample_broadcast sample_event)
   \<and> removal_waits Pending sample_actor_doc
        (delete_event_route sample_parse sample_broadcast True (Some sample_event) ''E1'' ''tok'')
   \<and> RemoveEvent ''E1''
        \<in> set (delete_event_route sample_parse sample_broadcast True (Some sample_event) ''E1'' ''tok'')"
proof -
  let ?ev = "''{\"type\":\"Event\"}''"
  let ?e = "JObj [(''type'', JStr ''Event'')]"
  have job: "ev_activityPubActor sample_event = Some sample_actor_body \<and> sample_actor_body \<noteq> []
      \<and> ev_activityPubEvent sample_event = Some ?ev \<and> ?ev \<noteq> []
      \<and> sample_parse sample_actor_body = Some sample_actor_doc \<and> sample_parse ?ev = Some ?e"
    by code_simp
  have route: "ev_editToken sample_event = ''tok''
      \<and> ev_activityPubActor sample_event = Some sample_actor_body
      \<and> sample_parse sample_actor_body = Some sample_actor_doc"
    by code_simp
  have fired: "sample_broadcast sample_actor_doc (ev_followers sample_event) (ev_id sample_event)
                 = Some [False, True]
      \<and> sample_broadcast ?e (ev_followers sample_event) (ev_id sample_event) = Some [False, True]
      \<and> sample_broadcast sample_actor_doc (ev_followers sample_event) ''E1'' = Some [False, True]
      \<and> ev_oid sample_event = ''oid1''"
    by code_simp
  note t = delete_waits_for_broadcast
    [where event = sample_event and actor = sample_actor_body and ev = ?ev and jp = sample_parse
       and a = sample_actor_doc and e = ?e and bc = sample_broadcast and token = "''tok''"
       and db_ok = True and eventID = "''E1''"]
  from t job route fired show ?thesis by metis
qed

text \<open>
  Claim C8. For an event that is found, whose page data can be prepared and whose stored
  actor document parses to a JSON object: when the request negotiates the ActivityPub
  content type, the response is that document, sent as JSON with the ActivityPub content
  type; this holds for any negotiation predicate and in particular for the one of the
  design on a request that prefers \<^verbatim>\<open>application/activity+json\<close>. When the request
  accepts only \<^verbatim>\<open>text/html\<close>, the design's predicate is false and the event page is
  rendered.
\<close>

theorem event_page_negotiates:
  "(found = Some event \<and> view_data event req = Some v
      \<and> ev_activityPubActor event = Some actor \<and> actor \<noteq> [] \<and> jp actor = Some (JObj members)
      \<and> acceptsActivityPub req
    \<longrightarrow> event_page acceptsActivityPub activityPubContentType jp view_data req found
          = SendJson activityPubContentType (JObj members))
   \<and> (found = Some event \<and> view_data event req = Some v
      \<and> ev_activityPubActor event = Some actor \<and> actor \<noteq> [] \<and> jp actor = Some (JObj members)
      \<and> prefs req = [''application/activity+json'']
    \<longrightarrow> event_page (\<lambda>r. wantsFederatedRepresentation (prefs r)) activityPubContentType jp
            view_data req found
          = SendJson activityPubContentType (JObj members))
   \<and> (found = Some event \<and> view_data event req = Some v \<and> prefs req = [''text/html'']
    \<longrightarrow> event_page (\<lambda>r. wantsFederatedRepresentation (prefs r)) activityPubContentType jp
            view_data req found
          = RenderEvent v)"
  by (simp add: event_page_def wantsFederatedRepresentation_def html_acceptable_def
        federation_type_def)

theorem event_page_negotiates_witness:
  "event_page (\<lambda>r. wantsFederatedRepresentation (sample_prefs r)) ''application/ld+json''
      sample_parse sample_view (sample_page_request ''application/activity+json'') (Some sample_event)
     = SendJson ''application/ld+json'' sample_actor_doc
   \<and> event_page (\<lambda>r. wantsFederatedRepresentation (sample_prefs r)) ''application/ld+json''
      sample_parse sample_view (sample_page_request ''text/html'') (Some sample_event)
     = RenderEvent ''E1''"
proof -
  let ?ap = "sample_page_request ''application/activity+json''"
  let ?html = "sample_page_request ''text/html''"
  let ?members = "[(''publicKey'', JObj [(''publicKeyPem'', JStr ''PEM'')])]"
  have a: "Some sample_event = Some sample_event \<and> sample_view sample_event ?ap = Some ''E1''
      \<and> ev_activityPubActor sample_event = Some sample_actor_body \<and> sample_actor_body \<noteq> []
      \<and> sample_parse sample_actor_body = Some (JObj ?members)
      \<and> sample_prefs ?ap = [''application/activity+json'']"
    by code_simp
  have h: "Some sample_event = Some sample_event \<and> sample_view sample_event ?html = Some ''E1''
      \<and> sample_prefs ?html = [''text/html'']"
    by code_simp
  have m: "sample_actor_doc = JObj ?members" by (simp add: sample_actor_doc_def)
  from a event_page_negotiates
    [where found = "Some sample_event" and event = sample_event and view_data = sample_view
       and req = ?ap and v = "''E1''" and actor = sample_actor_body and jp = sample_parse
       and members = ?members and prefs = sample_prefs
       and activityPubContentType = "''application/ld+json''"]
  have "event_page (\<lambda>r. wantsFederatedRepresentation (sample_prefs r)) ''application/ld+json''
      sample_parse sample_view ?ap (Some sample_event)
     = SendJson ''application/ld+json'' (JObj ?members)"
    by blast
  moreover from h event_page_negotiates
    [where found = "Some sample_event" and event = sample_event and view_data = sample_view
       and req = ?html and v = "''E1''" and jp = sample_parse and prefs = sample_prefs
       and activityPubContentType = "''application/ld+json''"]
  have "event_page (\<lambda>r. wantsFederatedRepresentation (sample_prefs r)) ''application/ld+json''
      sample_parse sample_view ?html (Some sample_event)
     = RenderEvent ''E1''"
    by blast
  ultimately show ?thesis by (simp add: m)
qed

text \<open>
  Claim C10. For an event that is found, whose page data can be prepared and that has no
  stored \<^verbatim>\<open>activityPubActor\<close> (missing or empty), a request that negotiates the
  ActivityPub content type is answered with the empty JSON object, sent with the
  ActivityPub content type, and not with an error page.
\<close>

theorem event_page_without_snapshot:
  assumes "found = Some event" and "view_data event req = Some v"
    and "ev_activityPubActor event = None \<or> ev_activityPubActor event = Some []"
    and "acceptsActivityPub req" and "jp ''{}'' = Some (JObj [])"
  shows "event_page acceptsActivityPub activityPubContentType jp view_data req found
           = SendJson activityPubContentType (JObj [])"
  using assms by (auto simp: event_page_def)

theorem event_page_without_snapshot_witness:
  "ev_activityPubActor (sample_event\<lparr>ev_activityPubActor := None\<rparr>) = None
   \<and> event_page (\<lambda>r. True) ''application/ld+json'' sample_parse sample_view
        (sample_page_request ''application/activity+json'')
        (Some (sample_event\<lparr>ev_activityPubActor := None\<rparr>))
      = SendJson ''application/ld+json'' (JObj [])"
proof -
  let ?e = "sample_event\<lparr>ev_activityPubActor := None\<rparr>"
  let ?req = "sample_page_request ''application/activity+json''"
  have v: "sample_view ?e ?req = Some ''E1''" by code_simp
  have n: "ev_activityPubActor ?e = None \<or> ev_activityPubActor ?e = Some []" by simp
  have p: "sample_parse ''{}'' = Some (JObj [])" by code_simp
  note t = event_page_without_snapshot
    [where found = "Some ?e" and event = ?e and view_data = sample_view and req = ?req
       and v = "''E1''" and acceptsActivityPub = "\<lambda>r. True" and jp = sample_parse
       and activityPubContentType = "''application/ld+json''"]
  from t v n p show ?thesis by simp
qed

end
